theory Spec2Isabelle
  imports Complex_Main
begin

section \<open>The autograding test runner (src/runner.ts)\<close>

text \<open>
  A shallow embedding of \<^verbatim>\<open>runner.ts\<close>: \<^verbatim>\<open>compareOutput\<close>, \<^verbatim>\<open>executeTest\<close>,
  \<^verbatim>\<open>runTest\<close>, \<^verbatim>\<open>createFeedbackDir\<close> and \<^verbatim>\<open>runAll\<close>.

  Conventions of the embedding:
  \<^item> JavaScript strings are \<open>string\<close>; \<open>undefined\<close> and \<open>null\<close> are \<open>None\<close>.
  \<^item> JavaScript numbers are the values of a type \<open>'n\<close> that the model does not look
    into: it has a zero (the two zeros of the language, which are equal and both
    falsy, are one value) and the numerals of the source text, and its arithmetic
    (\<open>num_add\<close>, \<open>num_sub\<close>, \<open>num_mul\<close>, \<open>num_div\<close>) and the test for \<open>NaN\<close> belong to the
    platform. Nothing is assumed of them, so whatever a theorem says of a sum or a
    product it says of the sum or product the platform computes, rounding and
    overflow included.
  \<^item> A thrown value is a value of \<open>js_thrown\<close>; a function that can throw returns
    \<open>js_thrown + 'a\<close>, with \<open>Inl\<close> for the throw.
  \<^item> Everything outside the module (child processes, the clock, the file system,
    \<open>RegExp\<close>, \<open>uuidv4\<close>, \<open>path.join\<close>, \<open>trim\<close>, the process environment) is a
    \<open>platform\<close> value and an \<open>os_state\<close>; the calls the runner makes are appended
    to a trace that the platform cannot touch.
  \<^item> Console output is not modelled.
\<close>

subsection \<open>Values\<close>

text \<open>
  \<open>Error_obj m\<close> is an instance of \<open>Error\<close> with message \<open>m\<close>; \<open>Non_error s\<close> is any
  other thrown value, \<open>s\<close> being what a template literal renders it as.
\<close>

datatype js_thrown = Error_obj string | Non_error string

text \<open>Truthiness of an optional string (the empty string is falsy).\<close>

definition truthy_str :: "string option \<Rightarrow> bool" where
  "truthy_str s = (case s of None \<Rightarrow> False | Some v \<Rightarrow> v \<noteq> [])"

text \<open>\<^verbatim>\<open>s || ''\<close> for an optional string.\<close>

definition or_empty :: "string option \<Rightarrow> string" where
  "or_empty s = (case s of None \<Rightarrow> [] | Some v \<Rightarrow> v)"

text \<open>How a template literal renders an optional string.\<close>

definition render :: "string option \<Rightarrow> string" where
  "render s = (case s of None \<Rightarrow> ''undefined'' | Some v \<Rightarrow> v)"

subsection \<open>String operations of the language\<close>

text \<open>\<^verbatim>\<open>String.prototype.includes\<close>: a contiguous occurrence at some position.\<close>

fun starts_with :: "string \<Rightarrow> string \<Rightarrow> bool" where
  "starts_with s [] = True"
| "starts_with [] (y # ys) = False"
| "starts_with (x # xs) (y # ys) = (x = y \<and> starts_with xs ys)"

fun includes_str :: "string \<Rightarrow> string \<Rightarrow> bool" where
  "includes_str [] e = (e = [])"
| "includes_str (x # xs) e = (starts_with (x # xs) e \<or> includes_str xs e)"

subsection \<open>The platform\<close>

text \<open>The options the runner passes to \<^verbatim>\<open>execSync\<close>. \<open>stdin\<close> is \<open>None\<close> for the
  setup command (\<^verbatim>\<open>stdio: 'ignore'\<close>); \<open>feedback_env\<close> is the value of
  \<^verbatim>\<open>AUTOGRADING_FEEDBACK\<close>, absent from the setup's environment.\<close>

record 'n exec_call =
  command :: string
  stdin :: "string option"
  timeout_ms :: 'n
  cwd :: string
  feedback_env :: "string option"

text \<open>Why \<^verbatim>\<open>execSync\<close> threw: the child was killed when the timeout ran out, or
  anything else (a non-zero exit status, a spawn failure, a refused option).\<close>

datatype exec_cause = Timeout_kill | Other_failure

datatype exec_result = Returned string | Threw exec_cause js_thrown

datatype fs_entry = File string | Unreadable string

text \<open>
  The state the commands run in and change: the clock (\<^verbatim>\<open>new Date().getTime()\<close>),
  the entries of the file system, and for each path the message of the error that
  \<^verbatim>\<open>fs.unlinkSync\<close> would throw on it, if any (a directory made read-only, say).
\<close>

record 'n os_state =
  now :: 'n
  files :: "string \<rightharpoonup> fs_entry"
  unlink_error :: "string \<rightharpoonup> string"

text \<open>
  \<^item> \<open>execSync\<close>: what running a command does to the operating system state, and what
    the call returns (the bytes of standard output, decoded) or throws;
  \<^item> \<open>regexp\<close>: \<^verbatim>\<open>new RegExp(source)\<close>, either the message of the \<open>SyntaxError\<close> or
    the \<^verbatim>\<open>test\<close> method of the compiled expression;
  \<^item> \<open>uuidv4\<close>: the identifiers handed out, by call number;
  \<^item> \<open>runner_temp\<close>: \<^verbatim>\<open>process.env['RUNNER_TEMP']\<close>;
  \<^item> \<open>global_test\<close>: \<^verbatim>\<open>executeTest\<close> reads \<^verbatim>\<open>test.name\<close>, and \<^verbatim>\<open>test\<close> is not one of
    its parameters: it is whatever the enclosing scope binds (\<open>Some\<close> of its
    rendered \<open>name\<close>), or nothing (\<open>None\<close>, a \<open>ReferenceError\<close>);
  \<^item> \<open>str_trim\<close>: \<^verbatim>\<open>String.prototype.trim\<close>; \<open>path_join\<close>: \<^verbatim>\<open>path.join\<close> of two parts;
  \<^item> \<open>num_add\<close>, \<open>num_sub\<close>, \<open>num_mul\<close>, \<open>num_div\<close>: the operators \<^verbatim>\<open>+\<close>, \<^verbatim>\<open>-\<close>, \<^verbatim>\<open>*\<close>, \<^verbatim>\<open>/\<close> on
    numbers; \<open>num_nan\<close>: whether a number is \<open>NaN\<close>.
\<close>

record 'n platform =
  execSync :: "'n exec_call \<Rightarrow> 'n os_state \<Rightarrow> exec_result \<times> 'n os_state"
  regexp :: "string \<Rightarrow> string + (string \<Rightarrow> bool)"
  uuidv4 :: "nat \<Rightarrow> string"
  runner_temp :: "string option"
  global_test :: "string option"
  str_trim :: "string \<Rightarrow> string"
  path_join :: "string \<Rightarrow> string \<Rightarrow> string"
  num_add :: "'n \<Rightarrow> 'n \<Rightarrow> 'n"
  num_sub :: "'n \<Rightarrow> 'n \<Rightarrow> 'n"
  num_mul :: "'n \<Rightarrow> 'n \<Rightarrow> 'n"
  num_div :: "'n \<Rightarrow> 'n \<Rightarrow> 'n"
  num_nan :: "'n \<Rightarrow> bool"

datatype 'n event = Exec "'n exec_call" | Read_file string | Unlink string | Mkdir string

record 'n world =
  os :: "'n os_state"
  uuid_count :: nat
  trace :: "'n event list"

text \<open>Truthiness of an optional number: \<open>undefined\<close>, zero and \<open>NaN\<close> are falsy.\<close>

definition truthy_num :: "'n platform \<Rightarrow> ('n::zero) option \<Rightarrow> bool" where
  "truthy_num P p = (case p of None \<Rightarrow> False | Some n \<Rightarrow> n \<noteq> 0 \<and> \<not> num_nan P n)"

subsection \<open>compareOutput\<close>

definition compareOutput :: "'n platform \<Rightarrow> string \<Rightarrow> string \<Rightarrow> string \<Rightarrow> js_thrown + bool" where
  "compareOutput P out expected meth =
     (if meth = ''exact'' then Inr (out = expected)
      else if meth = ''included'' then Inr (includes_str out expected)
      else if meth = ''regex'' then
        (case regexp P expected of
           Inl msg \<Rightarrow> Inl (Error_obj msg)
         | Inr regex_test \<Rightarrow> Inr (regex_test out))
      else Inl (Error_obj (''Invalid comparison method: '' @ meth)))"

subsection \<open>executeTest\<close>

text \<open>The return type is \<^verbatim>\<open>{output?: string, error?: string}\<close>: two optional fields
  (\<open>oc_output\<close> and \<open>oc_error\<close> here).\<close>

record outcome =
  oc_output :: "string option"
  oc_error :: "string option"

text \<open>
  \<^verbatim>\<open>executeTest(command, input, timeout, cwd, feedbackFile)\<close>. The \<open>catch\<close> clause
  computes the message from the thrown value; for a value that is not an \<open>Error\<close> it
  reads \<^verbatim>\<open>test.name\<close>, which throws a \<open>ReferenceError\<close> when \<^verbatim>\<open>test\<close> is unbound.
\<close>

definition run_call :: "string \<Rightarrow> string \<Rightarrow> 'n \<Rightarrow> string \<Rightarrow> string \<Rightarrow> 'n exec_call" where
  "run_call cmd inp timeout dir feedbackFile =
     \<lparr>command = cmd, stdin = Some inp, timeout_ms = timeout, cwd = dir,
      feedback_env = Some feedbackFile\<rparr>"

definition executeTest ::
  "'n platform \<Rightarrow> string \<Rightarrow> string \<Rightarrow> 'n \<Rightarrow> string \<Rightarrow> string \<Rightarrow> 'n world
     \<Rightarrow> (js_thrown + outcome) \<times> 'n world" where
  "executeTest P cmd inp timeout dir feedbackFile w =
     (let call = run_call cmd inp timeout dir feedbackFile;
          (r, os') = execSync P call (os w);
          w' = w\<lparr>os := os', trace := trace w @ [Exec call]\<rparr>
      in (case r of
            Returned out \<Rightarrow> (Inr \<lparr>oc_output = Some (str_trim P out), oc_error = None\<rparr>, w')
          | Threw c (Error_obj m) \<Rightarrow>
              (Inr \<lparr>oc_output = None,
                    oc_error = Some (if includes_str m ''ETIMEDOUT''
                                     then ''Command was killed due to timeout'' else m)\<rparr>, w')
          | Threw c (Non_error v) \<Rightarrow>
              (case global_test P of
                 None \<Rightarrow> (Inl (Error_obj ''test is not defined''), w')
               | Some n \<Rightarrow>
                   (Inr \<lparr>oc_output = None,
                         oc_error = Some (''Failed to execute run test: '' @ n @ '': '' @ v)\<rparr>, w'))))"

subsection \<open>The file system calls\<close>

text \<open>
  \<^verbatim>\<open>fs.readFileSync(path, 'utf8')\<close> throws an \<open>Error\<close> when there is no file at the path
  (\<open>ENOENT\<close>) or the entry cannot be read (\<open>Unreadable\<close>, with the message).
  \<^verbatim>\<open>fs.unlinkSync\<close> throws an \<open>Error\<close> when the state has an \<open>unlink_error\<close> for the
  path, and leaves the entry; otherwise it removes the entry. \<^verbatim>\<open>fs.mkdirSync\<close> with
  \<^verbatim>\<open>recursive: true\<close> is taken to succeed.
\<close>

definition enoent :: "string \<Rightarrow> string" where
  "enoent p = ''ENOENT: no such file or directory, open '' @ [CHR 0x27] @ p @ [CHR 0x27]"

definition readFileSync :: "string \<Rightarrow> 'n world \<Rightarrow> (js_thrown + string) \<times> 'n world" where
  "readFileSync p w =
     (let w' = w\<lparr>trace := trace w @ [Read_file p]\<rparr>
      in (case files (os w) p of
            None \<Rightarrow> (Inl (Error_obj (enoent p)), w')
          | Some (Unreadable m) \<Rightarrow> (Inl (Error_obj m), w')
          | Some (File c) \<Rightarrow> (Inr c, w')))"

definition existsSync :: "string \<Rightarrow> 'n world \<Rightarrow> bool" where
  "existsSync p w = (files (os w) p \<noteq> None)"

definition unlinkSync :: "string \<Rightarrow> 'n world \<Rightarrow> js_thrown option \<times> 'n world" where
  "unlinkSync p w =
     (let w' = w\<lparr>trace := trace w @ [Unlink p]\<rparr>
      in (case unlink_error (os w) p of
            Some m \<Rightarrow> (Some (Error_obj m), w')
          | None \<Rightarrow> (None, w'\<lparr>os := (os w)\<lparr>files := (files (os w))(p := None)\<rparr>\<rparr>)))"

subsection \<open>runTest\<close>

record 'n Test =
  test_name :: string
  test_setup :: string
  test_run :: string
  test_input :: "string option"
  test_output :: "string option"
  test_timeout :: 'n
  test_points :: "'n option"
  test_comparison :: string

datatype status = Pass | Fail | Error

text \<open>\<open>execution_time\<close> is the number \<open>0\<close> or a string of seconds, \<^verbatim>\<open>`${t}s`\<close>.\<close>

datatype 'n exec_time = Zero_time | Seconds 'n

record 'n TestResult =
  name :: string
  status :: status
  err_message :: "string option"
  content :: "string option"
  test_code :: string
  filename :: string
  line_no :: nat
  execution_time :: "'n exec_time"
  score :: "'n option"

text \<open>The local variables of \<^verbatim>\<open>runTest\<close> that the \<open>try\<close> block assigns.\<close>

record 'n vars =
  var_status :: status
  var_err_message :: "string option"
  var_score :: "'n option"
  var_feedback :: "string option"
  var_execution_time :: "'n option"

text \<open>Lines 108 to 113: the initial values.\<close>

definition total_timeout :: "'n platform \<Rightarrow> ('n::numeral) Test \<Rightarrow> 'n" where
  "total_timeout P t = num_mul P (num_mul P (test_timeout t) 60) 1000"

definition points_or_null :: "'n platform \<Rightarrow> ('n::zero) Test \<Rightarrow> 'n option" where
  "points_or_null P t = (if truthy_num P (test_points t) then test_points t else None)"

definition zero_or_null :: "'n platform \<Rightarrow> ('n::zero) Test \<Rightarrow> 'n option" where
  "zero_or_null P t = (if truthy_num P (test_points t) then Some 0 else None)"

definition init_vars :: "'n platform \<Rightarrow> ('n::zero) Test \<Rightarrow> 'n vars" where
  "init_vars P t = \<lparr>var_status = Pass, var_err_message = None, var_score = points_or_null P t,
                    var_feedback = None, var_execution_time = None\<rparr>"

text \<open>Lines 117 to 129: the setup command. Returns the timeout left for the run.\<close>

definition setup_call :: "'n platform \<Rightarrow> ('n::numeral) Test \<Rightarrow> string \<Rightarrow> 'n exec_call" where
  "setup_call P t dir = \<lparr>command = test_setup t, stdin = None, timeout_ms = total_timeout P t,
                         cwd = dir, feedback_env = None\<rparr>"

definition run_setup ::
  "'n platform \<Rightarrow> ('n::numeral) Test \<Rightarrow> string \<Rightarrow> 'n world \<Rightarrow> (js_thrown + 'n) \<times> 'n world" where
  "run_setup P t dir w =
     (if test_setup t \<noteq> [] then
        (let startSetup = now (os w);
             (r, os') = execSync P (setup_call P t dir) (os w);
             w' = w\<lparr>os := os', trace := trace w @ [Exec (setup_call P t dir)]\<rparr>
         in (case r of
               Returned out \<Rightarrow>
                 (Inr (num_sub P (total_timeout P t) (num_sub P (now os') startSetup)), w')
             | Threw c e \<Rightarrow> (Inl e, w')))
      else (Inr (total_timeout P t), w))"

text \<open>Line 132: the feedback file of the test.\<close>

definition feedback_path :: "'n platform \<Rightarrow> string \<Rightarrow> 'n world \<Rightarrow> string" where
  "feedback_path P feedbackDir w =
     path_join P feedbackDir (''grading_feedback_'' @ uuidv4 P (uuid_count w) @ ''.md'')"

text \<open>Lines 142 to 150: the status from the outcome of the run and the comparison.\<close>

definition compare_stage ::
  "'n platform \<Rightarrow> ('n::zero) Test \<Rightarrow> outcome \<Rightarrow> 'n vars \<Rightarrow> js_thrown + 'n vars" where
  "compare_stage P t oc l =
     (if truthy_str (oc_error oc) then
        Inr (l\<lparr>var_status := Error, var_err_message := oc_error oc,
                var_score := zero_or_null P t\<rparr>)
      else
        (case compareOutput P (or_empty (oc_output oc)) (or_empty (test_output t))
                (test_comparison t) of
           Inl e \<Rightarrow> Inl e
         | Inr matches \<Rightarrow>
             if \<not> matches then
               Inr (l\<lparr>var_status := Fail,
                       var_err_message :=
                         Some (''Output does not match expected. Got: '' @ render (oc_output oc)),
                       var_score := zero_or_null P t\<rparr>)
             else Inr l))"

text \<open>Lines 152 to 158: reading and deleting the feedback file. The variable
  \<open>feedback\<close> is assigned before the deletion, which can throw.\<close>

definition collect_feedback ::
  "string \<Rightarrow> 'n vars \<Rightarrow> 'n world \<Rightarrow> js_thrown option \<times> 'n vars \<times> 'n world" where
  "collect_feedback feedbackPath l w =
     (case readFileSync feedbackPath w of
        (Inl e, w') \<Rightarrow> (Some e, l, w')
      | (Inr fb, w') \<Rightarrow>
          (if existsSync feedbackPath w'
           then (case unlinkSync feedbackPath w' of
                   (thrown, w'') \<Rightarrow> (thrown, l\<lparr>var_feedback := Some fb\<rparr>, w''))
           else (None, l\<lparr>var_feedback := Some fb\<rparr>, w')))"

text \<open>
  Lines 115 to 158: the \<open>try\<close> block. It returns the value thrown inside it, if any,
  with the variables and the world as they are at that point.
\<close>

definition try_block ::
  "'n platform \<Rightarrow> ('n::{zero,numeral}) Test \<Rightarrow> string \<Rightarrow> string \<Rightarrow> 'n world
     \<Rightarrow> js_thrown option \<times> 'n vars \<times> 'n world" where
  "try_block P t dir feedbackDir w =
     (case run_setup P t dir w of
        (Inl e, w1) \<Rightarrow> (Some e, init_vars P t, w1)
      | (Inr timeout, w1) \<Rightarrow>
          (let feedbackPath = feedback_path P feedbackDir w1;
               w2 = w1\<lparr>uuid_count := Suc (uuid_count w1)\<rparr>;
               startTime = now (os w2)
           in (case executeTest P (test_run t) (or_empty (test_input t)) timeout dir
                      feedbackPath w2 of
                 (Inl e, w3) \<Rightarrow> (Some e, init_vars P t, w3)
               | (Inr oc, w3) \<Rightarrow>
                   (let endTime = now (os w3);
                        l1 = (init_vars P t)\<lparr>var_execution_time :=
                                Some (num_div P (num_sub P endTime startTime) 1000)\<rparr>
                    in (case compare_stage P t oc l1 of
                          Inl e \<Rightarrow> (Some e, l1, w3)
                        | Inr l2 \<Rightarrow> collect_feedback feedbackPath l2 w3)))))"

text \<open>Lines 159 to 168: the \<open>catch\<close> clause.\<close>

definition catch_message :: "'n Test \<Rightarrow> js_thrown \<Rightarrow> string" where
  "catch_message t e =
     (case e of
        Error_obj m \<Rightarrow> m
      | Non_error v \<Rightarrow> ''Failed to execute run test: '' @ test_name t @ '': '' @ v)"

definition catch_clause :: "'n Test \<Rightarrow> js_thrown option \<Rightarrow> 'n vars \<Rightarrow> 'n vars" where
  "catch_clause t thrown l =
     (case thrown of
        None \<Rightarrow> l
      | Some e \<Rightarrow> l\<lparr>var_status := Error, var_err_message := Some (catch_message t e)\<rparr>)"

text \<open>Lines 171 to 181: the result.\<close>

definition make_result :: "'n Test \<Rightarrow> 'n vars \<Rightarrow> 'n TestResult" where
  "make_result t l =
     \<lparr>name = test_name t,
      status = var_status l,
      err_message = var_err_message l,
      content = (if truthy_str (var_feedback l) then var_feedback l else None),
      test_code = test_run t @ '' <stdin>'' @ or_empty (test_input t),
      filename = [],
      line_no = 0,
      execution_time = (case var_execution_time l of None \<Rightarrow> Zero_time | Some s \<Rightarrow> Seconds s),
      score = var_score l\<rparr>"

definition runTest ::
  "'n platform \<Rightarrow> ('n::{zero,numeral}) Test \<Rightarrow> string \<Rightarrow> string \<Rightarrow> 'n world
     \<Rightarrow> 'n TestResult \<times> 'n world" where
  "runTest P t dir feedbackDir w =
     (case try_block P t dir feedbackDir w of
        (thrown, l, w') \<Rightarrow> (make_result t (catch_clause t thrown l), w'))"

subsection \<open>runAll\<close>

definition createFeedbackDir :: "'n platform \<Rightarrow> 'n world \<Rightarrow> string \<times> 'n world" where
  "createFeedbackDir P w =
     (let tmpDir = (if truthy_str (runner_temp P) then or_empty (runner_temp P) else ''/tmp'');
          feedbackDir = path_join P tmpDir ''_autograding_feedback''
      in (feedbackDir, w\<lparr>trace := trace w @ [Mkdir feedbackDir]\<rparr>))"

text \<open>The variables of the loop; \<open>failed\<close> collects the messages given to
  \<^verbatim>\<open>core.setFailed\<close>.\<close>

record 'n loop_vars =
  accumulatedPoints :: 'n
  availablePoints :: 'n
  hasPoints :: bool
  loop_status :: status
  testResults :: "'n TestResult list"
  failed :: "string list"

definition init_loop :: "('n::zero) loop_vars" where
  "init_loop = \<lparr>accumulatedPoints = 0, availablePoints = 0, hasPoints = False,
                loop_status = Pass, testResults = [], failed = []\<rparr>"

text \<open>\<^verbatim>\<open>result.score || 0\<close>.\<close>

definition score_or_zero :: "'n platform \<Rightarrow> ('n::zero) TestResult \<Rightarrow> 'n" where
  "score_or_zero P r = (if truthy_num P (score r) then the (score r) else 0)"

text \<open>Lines 196 to 220: one iteration, split at the call of \<open>runTest\<close>.\<close>

definition before_test :: "'n platform \<Rightarrow> ('n::zero) Test \<Rightarrow> 'n loop_vars \<Rightarrow> 'n loop_vars" where
  "before_test P t s =
     (if truthy_num P (test_points t)
      then s\<lparr>hasPoints := True,
             availablePoints := num_add P (availablePoints s) (the (test_points t))\<rparr>
      else s)"

definition after_test ::
  "'n platform \<Rightarrow> ('n::zero) Test \<Rightarrow> 'n TestResult \<Rightarrow> 'n loop_vars \<Rightarrow> 'n loop_vars" where
  "after_test P t r s =
     (let s1 = s\<lparr>testResults := testResults s @ [r]\<rparr>;
          s2 = (if truthy_num P (test_points t)
                then s1\<lparr>accumulatedPoints := num_add P (accumulatedPoints s1) (score_or_zero P r)\<rparr>
                else s1)
      in if status r = Pass then s2
         else s2\<lparr>failed := failed s2 @ [''Failed to run test '' @ [CHR 0x27] @ test_name t @ [CHR 0x27]],
                 loop_status := Error\<rparr>)"

fun run_loop ::
  "'n platform \<Rightarrow> string \<Rightarrow> string \<Rightarrow> ('n::{zero,numeral}) Test list \<Rightarrow> 'n loop_vars \<Rightarrow> 'n world
     \<Rightarrow> 'n loop_vars \<times> 'n world" where
  "run_loop P dir feedbackDir [] s w = (s, w)"
| "run_loop P dir feedbackDir (t # ts) s w =
     (case runTest P t dir feedbackDir w of
        (r, w') \<Rightarrow> run_loop P dir feedbackDir ts (after_test P t r (before_test P t s)) w')"

record 'n SuiteReport =
  version :: nat
  suite_status :: status
  max_score :: 'n
  tests :: "'n TestResult list"

text \<open>
  What \<^verbatim>\<open>runAll\<close> hands to the host: the messages of \<^verbatim>\<open>core.setFailed\<close>, the
  \<open>Points\<close> output (the pair rendered as \<^verbatim>\<open>`${accumulatedPoints}/${availablePoints}`\<close>),
  the text sent to the check run and the \<open>result\<close> output (the report; its encoding
  by \<^verbatim>\<open>JSON.stringify\<close> and base 64 is left out).
\<close>

record 'n run_outputs =
  set_failed :: "string list"
  points_output :: "('n \<times> 'n) option"
  check_run_output :: "('n \<times> 'n) option"
  result_output :: "'n SuiteReport"

text \<open>
  Modelled from the spec: \<^verbatim>\<open>setCheckRunOutput\<close> of \<^verbatim>\<open>./output\<close>, which is not among the
  sources. It is the external reporting sink of the points summary: it is sent the
  text and has no part in the report.
\<close>

definition setCheckRunOutput :: "'n \<times> 'n \<Rightarrow> ('n \<times> 'n) option" where
  "setCheckRunOutput summary = Some summary"

definition runAll ::
  "'n platform \<Rightarrow> ('n::{zero,numeral}) Test list \<Rightarrow> string \<Rightarrow> 'n world
     \<Rightarrow> 'n run_outputs \<times> 'n world" where
  "runAll P ts dir w =
     (case createFeedbackDir P w of
        (feedbackDir, w0) \<Rightarrow>
          (case run_loop P dir feedbackDir ts init_loop w0 of
             (s, w') \<Rightarrow>
               (\<lparr>set_failed = failed s,
                 points_output =
                   (if hasPoints s then Some (accumulatedPoints s, availablePoints s) else None),
                 check_run_output =
                   (if hasPoints s then setCheckRunOutput (accumulatedPoints s, availablePoints s)
                    else None),
                 result_output =
                   \<lparr>version = 0, suite_status = loop_status s,
                    max_score = availablePoints s, tests = testResults s\<rparr>\<rparr>, w')))"

subsection \<open>A platform to run the model on\<close>

text \<open>
  A small platform for concrete runs, with rational numbers and exact arithmetic:
  on the numbers the runs below use (integers, and one eighth for a run of 125
  milliseconds), it computes what the arithmetic of doubles computes. The shell knows a few commands, each with the time it takes, and follows
  Node: a timeout that is not a non-negative integer is refused; a command that
  takes longer than a timeout above zero is killed when the timeout is over (a
  timeout of zero is no timeout); the clock moves by the time the child ran and by
  two milliseconds for starting and collecting it. The messages are Node's
  (\<^verbatim>\<open>Command failed: <command>\<close> followed by the standard error output for a non-zero
  exit, \<^verbatim>\<open>spawnSync /bin/sh ETIMEDOUT\<close> for a timeout; the one for a refused timeout
  is given without the value received). \<open>RegExp\<close> is given on the two patterns used,
  \<open>trim\<close> on ASCII white space, \<open>path.join\<close> on parts that need no normalising.
\<close>

definition valid_timeout :: "rat \<Rightarrow> bool" where
  "valid_timeout x = (0 \<le> x \<and> of_int \<lfloor>x\<rfloor> = x)"

definition demo_duration :: "string \<Rightarrow> rat" where
  "demo_duration cmd =
     (if cmd = ''sleep 59.999'' then 59999
      else if cmd = ''sleep 1000'' then 1000000
      else if cmd = ''echo hi'' \<or> cmd = ''echo hi; : > $AUTOGRADING_FEEDBACK''
              \<or> cmd = ''echo hi; echo Good > $AUTOGRADING_FEEDBACK'' then 123
      else 1)"

definition demo_effect :: "rat exec_call \<Rightarrow> rat os_state \<Rightarrow> exec_result \<times> rat os_state" where
  "demo_effect c s =
     (if command c = ''echo hi'' then (Returned (''hi'' @ [CHR 0x0A]), s)
      else if command c = ''echo hi; : > $AUTOGRADING_FEEDBACK'' then
        (Returned (''hi'' @ [CHR 0x0A]),
         s\<lparr>files := (case feedback_env c of
                       None \<Rightarrow> files s
                     | Some p \<Rightarrow> (files s)(p \<mapsto> File []))\<rparr>)
      else if command c = ''echo hi; echo Good > $AUTOGRADING_FEEDBACK'' then
        (Returned (''hi'' @ [CHR 0x0A]),
         s\<lparr>files := (case feedback_env c of
                       None \<Rightarrow> files s
                     | Some p \<Rightarrow> (files s)(p \<mapsto> File (''Good'' @ [CHR 0x0A])))\<rparr>)
      else if command c = ''sleep 59.999'' \<or> command c = ''sleep 1000'' then (Returned [], s)
      else if command c = ''echo ETIMEDOUT >&2; exit 1'' then
        (Threw Other_failure
           (Error_obj (''Command failed: echo ETIMEDOUT >&2; exit 1'' @ [CHR 0x0A]
                        @ ''ETIMEDOUT'' @ [CHR 0x0A])), s)
      else (Threw Other_failure (Error_obj (''Command failed: '' @ command c)), s))"

definition demo_exec :: "rat exec_call \<Rightarrow> rat os_state \<Rightarrow> exec_result \<times> rat os_state" where
  "demo_exec c s =
     (if \<not> valid_timeout (timeout_ms c) then
        (Threw Other_failure
           (Error_obj (''The value of '' @ [CHR 0x22] @ ''timeout'' @ [CHR 0x22]
                        @ '' is out of range. It must be an unsigned integer.'')), s)
      else if 0 < timeout_ms c \<and> timeout_ms c < demo_duration (command c) then
        (Threw Timeout_kill (Error_obj ''spawnSync /bin/sh ETIMEDOUT''),
         s\<lparr>now := now s + timeout_ms c + 2\<rparr>)
      else demo_effect c (s\<lparr>now := now s + demo_duration (command c) + 2\<rparr>))"

definition demo_regexp :: "string \<Rightarrow> string + (string \<Rightarrow> bool)" where
  "demo_regexp source =
     (if source = ''('' then Inl ''Invalid regular expression: /(/: Unterminated group''
      else Inr (\<lambda>s. source = ''hi'' \<and> includes_str s ''hi''))"

definition is_space :: "char \<Rightarrow> bool" where
  "is_space c = (c \<in> set [CHR 0x09, CHR 0x0A, CHR 0x0B, CHR 0x0C, CHR 0x0D, CHR 0x20])"

definition demo_trim :: "string \<Rightarrow> string" where
  "demo_trim s = rev (dropWhile is_space (rev (dropWhile is_space s)))"

definition demo_join :: "string \<Rightarrow> string \<Rightarrow> string" where
  "demo_join d f = d @ ''/'' @ f"

definition demo_platform :: "rat platform" where
  "demo_platform =
     \<lparr>execSync = demo_exec, regexp = demo_regexp,
      uuidv4 = (\<lambda>n. ''id'' @ replicate n (CHR ''x'')),
      runner_temp = None, global_test = None,
      str_trim = demo_trim, path_join = demo_join,
      num_add = (\<lambda>x y. x + y), num_sub = (\<lambda>x y. x - y),
      num_mul = (\<lambda>x y. x * y), num_div = (\<lambda>x y. x / y),
      num_nan = (\<lambda>x. False)\<rparr>"

definition demo_world :: "rat world" where
  "demo_world = \<lparr>os = \<lparr>now = 1000, files = Map.empty, unlink_error = Map.empty\<rparr>,
                 uuid_count = 0, trace = []\<rparr>"

definition demo_test :: "rat Test" where
  "demo_test =
     \<lparr>test_name = ''hello'', test_setup = [], test_run = ''echo hi; : > $AUTOGRADING_FEEDBACK'',
      test_input = None, test_output = Some ''hi'', test_timeout = 1, test_points = Some 10,
      test_comparison = ''exact''\<rparr>"

definition demo_suite :: "rat Test list" where
  "demo_suite =
     [demo_test,
      demo_test\<lparr>test_name := ''second'', test_output := Some ''ho'', test_points := Some 5\<rparr>,
      demo_test\<lparr>test_name := ''third'', test_points := None\<rparr>]"

text \<open>A run command that prints the expected output and never writes the feedback file.\<close>

definition silent_test :: "rat Test" where
  "silent_test = demo_test\<lparr>test_run := ''echo hi''\<rparr>"

text \<open>An expected output that is not a regular expression, compared in mode \<open>regex\<close>,
  and a comparison mode that does not exist.\<close>

definition bad_regex_test :: "rat Test" where
  "bad_regex_test = demo_test\<lparr>test_output := Some ''('', test_comparison := ''regex''\<rparr>"

definition bad_mode_test :: "rat Test" where
  "bad_mode_test = demo_test\<lparr>test_comparison := ''include''\<rparr>"


subsection \<open>The invariant of the loop\<close>

text \<open>What holds of the variables of the loop after the specs \<open>ts\<close> have been run. The
  totals are the sums the loop computes, with the platform's addition, from zero and
  from left to right.\<close>

definition loop_inv :: "'n platform \<Rightarrow> ('n::{zero,numeral}) Test list \<Rightarrow> 'n loop_vars \<Rightarrow> bool" where
  "loop_inv P ts s =
     (length (testResults s) = length ts \<and>
      map name (testResults s) = map test_name ts \<and>
      map test_code (testResults s)
        = map (\<lambda>t. test_run t @ '' <stdin>'' @ or_empty (test_input t)) ts \<and>
      accumulatedPoints s
        = foldl (num_add P) 0 (map (\<lambda>(t, r). score_or_zero P r)
            (filter (\<lambda>(t, r). truthy_num P (test_points t)) (zip ts (testResults s)))) \<and>
      availablePoints s
        = foldl (num_add P) 0 (map (\<lambda>t. the (test_points t))
            (filter (\<lambda>t. truthy_num P (test_points t)) ts)) \<and>
      hasPoints s = (\<exists>t \<in> set ts. truthy_num P (test_points t)) \<and>
      (loop_status s = Pass) = (\<forall>r \<in> set (testResults s). status r = Pass) \<and>
      loop_status s \<noteq> Fail)"

section \<open>Properties\<close>

lemmas runner_defs = runTest_def try_block_def run_setup_def executeTest_def compare_stage_def
  collect_feedback_def readFileSync_def existsSync_def unlinkSync_def make_result_def
  catch_clause_def catch_message_def init_vars_def points_or_null_def zero_or_null_def
  total_timeout_def setup_call_def run_call_def feedback_path_def
  compareOutput_def truthy_num_def truthy_str_def or_empty_def render_def enoent_def

lemmas demo_defs = demo_platform_def demo_exec_def demo_effect_def demo_duration_def
  valid_timeout_def demo_regexp_def demo_trim_def is_space_def demo_join_def demo_world_def
  demo_test_def

lemmas loop_defs = runAll_def createFeedbackDir_def init_loop_def before_test_def after_test_def
  score_or_zero_def setCheckRunOutput_def

subsection \<open>Strings\<close>

lemma starts_with_iff: "starts_with s e \<longleftrightarrow> (\<exists>ss. s = e @ ss)"
  by (induction s e rule: starts_with.induct) auto

lemma includes_str_iff: "includes_str s e \<longleftrightarrow> (\<exists>ps ss. s = ps @ e @ ss)"
proof (induction s)
  case Nil
  then show ?case by auto
next
  case (Cons x xs)
  show ?case
  proof
    assume "includes_str (x # xs) e"
    then consider "starts_with (x # xs) e" | "includes_str xs e" by auto
    then show "\<exists>ps ss. x # xs = ps @ e @ ss"
    proof cases
      case 1
      then obtain ss where "x # xs = e @ ss" using starts_with_iff by blast
      then have "x # xs = [] @ e @ ss" by simp
      then show ?thesis by blast
    next
      case 2
      then obtain ps ss where "xs = ps @ e @ ss" using Cons.IH by blast
      then have "x # xs = (x # ps) @ e @ ss" by simp
      then show ?thesis by blast
    qed
  next
    assume "\<exists>ps ss. x # xs = ps @ e @ ss"
    then obtain ps ss where eq: "x # xs = ps @ e @ ss" by blast
    show "includes_str (x # xs) e"
    proof (cases ps)
      case Nil
      with eq have "starts_with (x # xs) e" using starts_with_iff by auto
      then show ?thesis by simp
    next
      case (Cons p ps')
      with eq have "xs = ps' @ e @ ss" by simp
      then have "includes_str xs e" using Cons.IH by blast
      then show ?thesis by simp
    qed
  qed
qed

subsection \<open>C3: the comparison modes\<close>

text \<open>
  C3. \<open>compareOutput\<close> in mode \<open>exact\<close> returns true iff the two strings are equal; in
  mode \<open>included\<close> iff the expected string occurs as a contiguous substring of the
  output; in mode \<open>regex\<close> iff the expected string compiles as a regular expression
  whose \<open>test\<close> accepts the output (the matching itself is the platform's \<open>RegExp\<close>);
  for any other mode it does not return a boolean but throws an \<open>Error\<close> with the
  message \<open>Invalid comparison method: <mode>\<close>.
\<close>

theorem compareOutput_modes:
  "compareOutput P actual expected ''exact'' = Inr (actual = expected) \<and>
   compareOutput P actual expected ''included'' = Inr (\<exists>ps ss. actual = ps @ expected @ ss) \<and>
   (compareOutput P actual expected ''regex'' = Inr True
      \<longleftrightarrow> (\<exists>re. regexp P expected = Inr re \<and> re actual)) \<and>
   ((\<exists>b. compareOutput P actual expected ''regex'' = Inr b)
      \<longleftrightarrow> (\<exists>re. regexp P expected = Inr re)) \<and>
   (meth \<notin> {''exact'', ''included'', ''regex''} \<longrightarrow>
      compareOutput P actual expected meth
        = Inl (Error_obj (''Invalid comparison method: '' @ meth)))"
  by (auto simp: compareOutput_def includes_str_iff split: sum.splits)

theorem compareOutput_modes_witness:
  "''fuzzy'' \<notin> {''exact'', ''included'', ''regex''} \<and>
   compareOutput demo_platform ''hello world'' ''world'' ''fuzzy''
     = Inl (Error_obj ''Invalid comparison method: fuzzy'') \<and>
   compareOutput demo_platform ''hello world'' ''world'' ''included'' = Inr True \<and>
   compareOutput demo_platform ''hello'' ''world'' ''included'' = Inr False \<and>
   compareOutput demo_platform ''hello'' ''hello'' ''exact'' = Inr True \<and>
   compareOutput demo_platform ''hello'' ''hellox'' ''exact'' = Inr False"
proof -
  have h: "''fuzzy'' \<notin> {''exact'', ''included'', ''regex''}" by simp
  have "compareOutput demo_platform ''hello world'' ''world'' ''fuzzy''
     = Inl (Error_obj (''Invalid comparison method: '' @ ''fuzzy''))"
    using compareOutput_modes [of demo_platform "''hello world''" "''world''" "''fuzzy''"] h
    by blast
  then show ?thesis by (simp add: compareOutput_def)
qed

subsection \<open>C7: a failing setup command\<close>

text \<open>
  C7. When the setup command is not empty and \<open>execSync\<close> throws on it (a non-zero
  exit status or a timeout), the test stops there: the result has status \<open>error\<close>,
  the message of the thrown \<open>Error\<close> as \<open>err_message\<close> and \<open>content\<close> null, and the
  only call made is the one of the setup command (no run command, no read or
  deletion of a feedback file, no identifier drawn for it).
\<close>

theorem setup_failure_aborts:
  assumes "test_setup t \<noteq> []"
    and "execSync P (setup_call P t dir) (os w) = (Threw c (Error_obj m), os1)"
  shows "runTest P t dir feedbackDir w =
    (\<lparr>name = test_name t, status = Error, err_message = Some m, content = None,
      test_code = test_run t @ '' <stdin>'' @ or_empty (test_input t),
      filename = [], line_no = 0, execution_time = Zero_time, score = points_or_null P t\<rparr>,
     w\<lparr>os := os1, trace := trace w @ [Exec (setup_call P t dir)]\<rparr>)"
  using assms
  by (simp add: runTest_def try_block_def run_setup_def make_result_def catch_clause_def
      catch_message_def init_vars_def truthy_str_def)

text \<open>A setup command that outlasts the budget of one minute and is killed.\<close>

theorem setup_failure_aborts_witness:
  "test_setup (demo_test\<lparr>test_setup := ''sleep 1000''\<rparr>) \<noteq> [] \<and>
   runTest demo_platform (demo_test\<lparr>test_setup := ''sleep 1000''\<rparr>)
       ''/work'' ''/tmp/fb'' demo_world =
    (\<lparr>name = ''hello'', status = Error, err_message = Some ''spawnSync /bin/sh ETIMEDOUT'',
      content = None, test_code = ''echo hi; : > $AUTOGRADING_FEEDBACK <stdin>'',
      filename = [], line_no = 0, execution_time = Zero_time, score = Some 10\<rparr>,
     \<lparr>os = \<lparr>now = 61002, files = Map.empty, unlink_error = Map.empty\<rparr>, uuid_count = 0,
      trace = [Exec \<lparr>command = ''sleep 1000'', stdin = None, timeout_ms = 60000,
                     cwd = ''/work'', feedback_env = None\<rparr>]\<rparr>)"
proof -
  let ?t = "demo_test\<lparr>test_setup := ''sleep 1000''\<rparr>"
  have a: "test_setup ?t \<noteq> []" by (simp add: demo_defs)
  have b: "execSync demo_platform (setup_call demo_platform ?t ''/work'') (os demo_world)
      = (Threw Timeout_kill (Error_obj ''spawnSync /bin/sh ETIMEDOUT''),
         \<lparr>now = 61002, files = Map.empty, unlink_error = Map.empty\<rparr>)"
    by (simp add: demo_defs setup_call_def total_timeout_def)
  show ?thesis
    using setup_failure_aborts [OF a b, of "''/tmp/fb''"]
    by (simp add: demo_defs setup_call_def total_timeout_def points_or_null_def truthy_num_def
        or_empty_def)
qed

subsection \<open>C5: the outcome of executeTest\<close>

text \<open>
  C5, as the code has it. Whenever \<open>execSync\<close> returns or throws an \<open>Error\<close>,
  \<open>executeTest\<close> does not throw and returns an outcome with exactly one of the two
  fields: the trimmed output when the command returned; otherwise an error message,
  which is \<open>Command was killed due to timeout\<close> exactly when the message of the
  thrown \<open>Error\<close> contains the text \<open>ETIMEDOUT\<close>, whatever made the command fail,
  and the message of the thrown \<open>Error\<close>, unchanged, when it does not.
\<close>

theorem executeTest_outcome:
  assumes "execSync P (run_call cmd inp tm dir fb) (os w) = (r, os1)"
    and "\<forall>c v. r \<noteq> Threw c (Non_error v)"
  shows "\<exists>oc. executeTest P cmd inp tm dir fb w
            = (Inr oc, w\<lparr>os := os1, trace := trace w @ [Exec (run_call cmd inp tm dir fb)]\<rparr>) \<and>
          ((oc_output oc = None) \<noteq> (oc_error oc = None)) \<and>
          (\<forall>out. r = Returned out \<longrightarrow>
             oc = \<lparr>oc_output = Some (str_trim P out), oc_error = None\<rparr>) \<and>
          (\<forall>c m. r = Threw c (Error_obj m) \<longrightarrow>
             oc = \<lparr>oc_output = None,
                   oc_error = Some (if includes_str m ''ETIMEDOUT''
                                    then ''Command was killed due to timeout'' else m)\<rparr>)"
  using assms
  by (cases r) (auto simp: executeTest_def Let_def split: js_thrown.splits)

theorem executeTest_outcome_witness:
  "fst (executeTest demo_platform ''sleep 1000'' [] 600 ''/work'' ''/tmp/fb/f.md'' demo_world)
     = Inr \<lparr>oc_output = None, oc_error = Some ''Command was killed due to timeout''\<rparr> \<and>
   fst (executeTest demo_platform ''exit 1'' [] 600 ''/work'' ''/tmp/fb/f.md'' demo_world)
     = Inr \<lparr>oc_output = None, oc_error = Some ''Command failed: exit 1''\<rparr> \<and>
   fst (executeTest demo_platform ''echo hi'' [] 600 ''/work'' ''/tmp/fb/f.md'' demo_world)
     = Inr \<lparr>oc_output = Some ''hi'', oc_error = None\<rparr>"
proof -
  have a: "execSync demo_platform (run_call ''sleep 1000'' [] 600 ''/work'' ''/tmp/fb/f.md'')
        (os demo_world)
      = (Threw Timeout_kill (Error_obj ''spawnSync /bin/sh ETIMEDOUT''),
         \<lparr>now = 1602, files = Map.empty, unlink_error = Map.empty\<rparr>)"
    by (simp add: demo_defs run_call_def)
  have b: "execSync demo_platform (run_call ''exit 1'' [] 600 ''/work'' ''/tmp/fb/f.md'')
        (os demo_world)
      = (Threw Other_failure (Error_obj ''Command failed: exit 1''),
         \<lparr>now = 1003, files = Map.empty, unlink_error = Map.empty\<rparr>)"
    by (simp add: demo_defs run_call_def)
  have c: "execSync demo_platform (run_call ''echo hi'' [] 600 ''/work'' ''/tmp/fb/f.md'')
        (os demo_world)
      = (Returned (''hi'' @ [CHR 0x0A]),
         \<lparr>now = 1125, files = Map.empty, unlink_error = Map.empty\<rparr>)"
    by (simp add: demo_defs run_call_def)
  have n: "\<forall>c v. Threw k (Error_obj m) \<noteq> Threw c (Non_error v)" for k m by simp
  have n': "\<forall>c v. Returned out \<noteq> Threw c (Non_error v)" for out by simp
  show ?thesis
    using executeTest_outcome [OF a n] executeTest_outcome [OF b n] executeTest_outcome [OF c n']
    by (auto simp: demo_platform_def demo_trim_def is_space_def)
qed

text \<open>
  As the specification words it, the property fails: a command that exits with
  status 1 after writing \<open>ETIMEDOUT\<close> to its standard error was not killed by the
  timeout, and its failure message is replaced all the same.
\<close>

theorem executeTest_timeout_text_counterexample:
  "fst (execSync demo_platform
          (run_call ''echo ETIMEDOUT >&2; exit 1'' [] 60000 ''/work'' ''/tmp/fb/f.md'')
          (os demo_world))
     = Threw Other_failure
         (Error_obj (''Command failed: echo ETIMEDOUT >&2; exit 1'' @ [CHR 0x0A]
                      @ ''ETIMEDOUT'' @ [CHR 0x0A])) \<and>
   fst (executeTest demo_platform ''echo ETIMEDOUT >&2; exit 1'' [] 60000 ''/work''
          ''/tmp/fb/f.md'' demo_world)
     = Inr \<lparr>oc_output = None, oc_error = Some ''Command was killed due to timeout''\<rparr>"
  by (simp add: demo_defs run_call_def executeTest_def)

subsection \<open>The calls a test makes\<close>

lemma trace_collect_feedback:
  "\<exists>rest. trace (snd (snd (collect_feedback p l w))) = trace w @ Read_file p # rest"
  by (auto simp: collect_feedback_def readFileSync_def existsSync_def unlinkSync_def Let_def
      split: option.splits fs_entry.splits)

lemma executeTest_world:
  "snd (executeTest P cmd inp tm dir fb w)
     = w\<lparr>os := snd (execSync P (run_call cmd inp tm dir fb) (os w)),
         trace := trace w @ [Exec (run_call cmd inp tm dir fb)]\<rparr>"
  by (auto simp: executeTest_def Let_def
      split: prod.splits exec_result.splits js_thrown.splits option.splits)

lemma try_block_run_trace:
  assumes "run_setup P t dir w = (Inr tm, w1)"
  shows "\<exists>rest. trace (snd (snd (try_block P t dir fd w)))
           = trace w1 @ Exec (run_call (test_run t) (or_empty (test_input t)) tm dir
                                (feedback_path P fd w1)) # rest"
proof -
  let ?p = "feedback_path P fd w1"
  let ?w2 = "w1\<lparr>uuid_count := Suc (uuid_count w1)\<rparr>"
  obtain x w3 where
    ex: "executeTest P (test_run t) (or_empty (test_input t)) tm dir ?p ?w2 = (x, w3)"
    by (cases "executeTest P (test_run t) (or_empty (test_input t)) tm dir ?p ?w2")
  have tr: "trace w3
      = trace w1 @ [Exec (run_call (test_run t) (or_empty (test_input t)) tm dir ?p)]"
    using executeTest_world [of P "test_run t" "or_empty (test_input t)" tm dir ?p ?w2] ex
    by simp
  show ?thesis
  proof (cases x)
    case (Inl e)
    then show ?thesis using assms ex tr by (simp add: try_block_def)
  next
    case (Inr oc)
    show ?thesis
    proof (cases "compare_stage P t oc
        ((init_vars P t)\<lparr>var_execution_time :=
            Some (num_div P (num_sub P (now (os w3)) (now (os ?w2))) 1000)\<rparr>)")
      case (Inl e)
      then show ?thesis using assms ex tr Inr by (simp add: try_block_def Let_def)
    next
      case (Inr l2)
      obtain rest where
        "trace (snd (snd (collect_feedback ?p l2 w3))) = trace w3 @ Read_file ?p # rest"
        using trace_collect_feedback by blast
      then show ?thesis
        using assms ex tr \<open>x = Inr oc\<close> Inr by (simp add: try_block_def Let_def)
    qed
  qed
qed

lemma runTest_world: "snd (runTest P t dir fd w) = snd (snd (try_block P t dir fd w))"
  by (simp add: runTest_def split: prod.splits)

subsection \<open>C6: the timeout of the run command\<close>

text \<open>
  C6. The budget of a test is its timeout in minutes times 60 times 1000, the
  products being those of the platform, as the source writes them, and the setup
  command is run with it. Without a setup command the run command gets the whole
  budget. When a setup command runs (and returns), the run command gets the budget
  minus the time the setup took by the clock (the clock after minus the clock
  before), as the subtraction gives it: nothing keeps the difference above zero.
\<close>

theorem run_phase_budget:
  "total_timeout P t = num_mul P (num_mul P (test_timeout t) 60) 1000 \<and>
   timeout_ms (setup_call P t dir) = total_timeout P t \<and>
   (test_setup t = [] \<longrightarrow>
      (\<exists>rest. trace (snd (runTest P t dir fd w))
         = trace w @ Exec (run_call (test_run t) (or_empty (test_input t)) (total_timeout P t)
                             dir (feedback_path P fd w)) # rest)) \<and>
   (\<forall>out os1. test_setup t \<noteq> [] \<and> execSync P (setup_call P t dir) (os w) = (Returned out, os1)
      \<longrightarrow>
      (\<exists>rest. trace (snd (runTest P t dir fd w))
         = trace w @ Exec (setup_call P t dir)
             # Exec (run_call (test_run t) (or_empty (test_input t))
                       (num_sub P (total_timeout P t) (num_sub P (now os1) (now (os w)))) dir
                       (feedback_path P fd w)) # rest))"
proof (intro conjI allI impI)
  show "total_timeout P t = num_mul P (num_mul P (test_timeout t) 60) 1000"
    by (simp add: total_timeout_def)
  show "timeout_ms (setup_call P t dir) = total_timeout P t" by (simp add: setup_call_def)
next
  assume "test_setup t = []"
  then have "run_setup P t dir w = (Inr (total_timeout P t), w)" by (simp add: run_setup_def)
  from try_block_run_trace [OF this, of fd] show
    "\<exists>rest. trace (snd (runTest P t dir fd w))
         = trace w @ Exec (run_call (test_run t) (or_empty (test_input t)) (total_timeout P t)
                             dir (feedback_path P fd w)) # rest"
    by (simp add: runTest_world)
next
  fix out os1
  assume a: "test_setup t \<noteq> [] \<and> execSync P (setup_call P t dir) (os w) = (Returned out, os1)"
  let ?w1 = "w\<lparr>os := os1, trace := trace w @ [Exec (setup_call P t dir)]\<rparr>"
  from a have "run_setup P t dir w
      = (Inr (num_sub P (total_timeout P t) (num_sub P (now os1) (now (os w)))), ?w1)"
    by (simp add: run_setup_def)
  from try_block_run_trace [OF this, of fd] show
    "\<exists>rest. trace (snd (runTest P t dir fd w))
         = trace w @ Exec (setup_call P t dir)
             # Exec (run_call (test_run t) (or_empty (test_input t))
                       (num_sub P (total_timeout P t) (num_sub P (now os1) (now (os w)))) dir
                       (feedback_path P fd w)) # rest"
    by (simp add: runTest_world feedback_path_def)
qed

text \<open>
  A budget of one minute and a setup command that runs for 59.999 seconds: it ends
  before the timeout, the clock has moved by 60001 milliseconds when \<open>execSync\<close> is
  back, and the run command is given a timeout of minus one millisecond.
\<close>

theorem run_phase_budget_witness:
  "test_setup (demo_test\<lparr>test_setup := ''sleep 59.999''\<rparr>) \<noteq> [] \<and>
   execSync demo_platform
       (setup_call demo_platform (demo_test\<lparr>test_setup := ''sleep 59.999''\<rparr>) ''/work'')
       (os demo_world)
     = (Returned [], \<lparr>now = 61001, files = Map.empty, unlink_error = Map.empty\<rparr>) \<and>
   total_timeout demo_platform (demo_test\<lparr>test_setup := ''sleep 59.999''\<rparr>) = 60000 \<and>
   (\<exists>rest. trace (snd (runTest demo_platform (demo_test\<lparr>test_setup := ''sleep 59.999''\<rparr>)
                          ''/work'' ''/tmp/fb'' demo_world))
      = Exec \<lparr>command = ''sleep 59.999'', stdin = None, timeout_ms = 60000, cwd = ''/work'',
               feedback_env = None\<rparr>
        # Exec \<lparr>command = ''echo hi; : > $AUTOGRADING_FEEDBACK'', stdin = Some [],
                 timeout_ms = - 1, cwd = ''/work'',
                 feedback_env = Some ''/tmp/fb/grading_feedback_id.md''\<rparr> # rest)"
proof -
  let ?t = "demo_test\<lparr>test_setup := ''sleep 59.999''\<rparr>"
  let ?os1 = "\<lparr>now = 61001 :: rat, files = Map.empty, unlink_error = Map.empty\<rparr>"
  have a: "test_setup ?t \<noteq> []" by (simp add: demo_defs)
  have c: "total_timeout demo_platform ?t = 60000" by (simp add: total_timeout_def demo_defs)
  have b: "execSync demo_platform (setup_call demo_platform ?t ''/work'') (os demo_world)
      = (Returned [], ?os1)"
    by (simp add: demo_defs setup_call_def total_timeout_def)
  from run_phase_budget [of demo_platform ?t "''/work''" "''/tmp/fb''" demo_world] a b
  have "\<exists>rest. trace (snd (runTest demo_platform ?t ''/work'' ''/tmp/fb'' demo_world))
         = trace demo_world @ Exec (setup_call demo_platform ?t ''/work'')
             # Exec (run_call (test_run ?t) (or_empty (test_input ?t))
                       (num_sub demo_platform (total_timeout demo_platform ?t)
                          (num_sub demo_platform (now ?os1) (now (os demo_world))))
                       ''/work'' (feedback_path demo_platform ''/tmp/fb'' demo_world)) # rest"
    by blast
  then show ?thesis using a b c
    by (simp add: demo_defs setup_call_def run_call_def feedback_path_def
      or_empty_def total_timeout_def)
qed

subsection \<open>When the comparison throws\<close>

lemma compareOutput_throws_iff:
  "isl (compareOutput P out expected meth) \<longleftrightarrow>
     (meth = ''regex'' \<and> isl (regexp P expected)) \<or> meth \<notin> {''exact'', ''included'', ''regex''}"
  by (auto simp: compareOutput_def split: sum.splits)

lemma compare_stage_throws_iff:
  "isl (compare_stage P t oc l) \<longleftrightarrow>
     \<not> truthy_str (oc_error oc) \<and>
     ((test_comparison t = ''regex'' \<and> isl (regexp P (or_empty (test_output t)))) \<or>
      test_comparison t \<notin> {''exact'', ''included'', ''regex''})"
proof -
  have "isl (compare_stage P t oc l) \<longleftrightarrow>
     \<not> truthy_str (oc_error oc) \<and>
     isl (compareOutput P (or_empty (oc_output oc)) (or_empty (test_output t)) (test_comparison t))"
    by (simp add: compare_stage_def split: sum.splits)
  then show ?thesis by (simp only: compareOutput_throws_iff)
qed

lemma isl_compare_stage: "isl (compare_stage P t oc l) = isl (compare_stage P t oc l')"
  by (simp add: compare_stage_def split: sum.splits)

lemma try_block_collect:
  assumes "run_setup P t dir w = (Inr tm, w1)"
    and "executeTest P (test_run t) (or_empty (test_input t)) tm dir (feedback_path P fd w1)
           (w1\<lparr>uuid_count := Suc (uuid_count w1)\<rparr>) = (Inr oc, w3)"
    and "\<not> isl (compare_stage P t oc (init_vars P t))"
  shows "\<exists>l2. var_feedback l2 = None \<and>
           try_block P t dir fd w = collect_feedback (feedback_path P fd w1) l2 w3"
proof -
  let ?l1 = "(init_vars P t)\<lparr>var_execution_time :=
      Some (num_div P (num_sub P (now (os w3))
              (now (os (w1\<lparr>uuid_count := Suc (uuid_count w1)\<rparr>)))) 1000)\<rparr>"
  from assms(3) have "\<not> isl (compare_stage P t oc ?l1)"
    using isl_compare_stage by blast
  then obtain l2 where l2: "compare_stage P t oc ?l1 = Inr l2"
    by (cases "compare_stage P t oc ?l1") auto
  then have "var_feedback l2 = None"
    by (auto simp: compare_stage_def init_vars_def split: if_splits sum.splits)
  moreover have "try_block P t dir fd w = collect_feedback (feedback_path P fd w1) l2 w3"
    using assms(1,2) l2 by (simp add: try_block_def Let_def)
  ultimately show ?thesis by blast
qed

text \<open>When the comparison throws, the test ends in the world the run command left,
  with status \<open>error\<close>, the thrown message and no feedback.\<close>

lemma try_block_compare_throws:
  assumes "run_setup P t dir w = (Inr tm, w1)"
    and "executeTest P (test_run t) (or_empty (test_input t)) tm dir (feedback_path P fd w1)
           (w1\<lparr>uuid_count := Suc (uuid_count w1)\<rparr>) = (Inr oc, w3)"
    and "isl (compare_stage P t oc (init_vars P t))"
  shows "snd (runTest P t dir fd w) = w3 \<and>
         status (fst (runTest P t dir fd w)) = Error \<and>
         content (fst (runTest P t dir fd w)) = None"
proof -
  let ?l1 = "(init_vars P t)\<lparr>var_execution_time :=
      Some (num_div P (num_sub P (now (os w3))
              (now (os (w1\<lparr>uuid_count := Suc (uuid_count w1)\<rparr>)))) 1000)\<rparr>"
  from assms(3) have "isl (compare_stage P t oc ?l1)"
    using isl_compare_stage by blast
  then obtain e where "compare_stage P t oc ?l1 = Inl e"
    by (cases "compare_stage P t oc ?l1") auto
  then have "try_block P t dir fd w = (Some e, ?l1, w3)"
    using assms(1,2) by (simp add: try_block_def Let_def)
  then show ?thesis
    by (simp add: runTest_def make_result_def catch_clause_def init_vars_def truthy_str_def)
qed

subsection \<open>C2: a feedback file that cannot be read\<close>

text \<open>
  C2, as the code has it. Take a test whose run command has been executed. The
  comparison step throws exactly when the run gave no error message and either the
  mode is \<open>regex\<close> and the expected output does not compile, or the mode is none of
  \<open>exact\<close>, \<open>included\<close>, \<open>regex\<close>. When it does not throw, the next call is the read
  of the feedback file, whatever status the comparison step has set (\<open>pass\<close>,
  \<open>fail\<close> or \<open>error\<close>); when that read fails, because there is no file at the path
  or because the entry cannot be read, the result has status \<open>error\<close> and the
  message of the read failure as \<open>err_message\<close>. So a run command that returns the
  expected output and never writes the feedback file gives status \<open>error\<close>. When
  the comparison step throws, the feedback file is not read: \<open>runTest\<close> returns in
  the world the run command left, with status \<open>error\<close>.
\<close>

theorem feedback_read_failure_overrides:
  assumes "run_setup P t dir w = (Inr tm, w1)"
    and "executeTest P (test_run t) (or_empty (test_input t)) tm dir (feedback_path P fd w1)
           (w1\<lparr>uuid_count := Suc (uuid_count w1)\<rparr>) = (Inr oc, w3)"
  shows "(isl (compare_stage P t oc (init_vars P t)) \<longleftrightarrow>
            \<not> truthy_str (oc_error oc) \<and>
            ((test_comparison t = ''regex'' \<and> isl (regexp P (or_empty (test_output t)))) \<or>
             test_comparison t \<notin> {''exact'', ''included'', ''regex''})) \<and>
         (\<not> isl (compare_stage P t oc (init_vars P t)) \<longrightarrow>
            (\<exists>rest. trace (snd (runTest P t dir fd w))
               = trace w3 @ Read_file (feedback_path P fd w1) # rest) \<and>
            (files (os w3) (feedback_path P fd w1) = None \<longrightarrow>
               status (fst (runTest P t dir fd w)) = Error \<and>
               err_message (fst (runTest P t dir fd w))
                 = Some (enoent (feedback_path P fd w1))) \<and>
            (\<forall>m. files (os w3) (feedback_path P fd w1) = Some (Unreadable m) \<longrightarrow>
               status (fst (runTest P t dir fd w)) = Error \<and>
               err_message (fst (runTest P t dir fd w)) = Some m)) \<and>
         (isl (compare_stage P t oc (init_vars P t)) \<longrightarrow>
            snd (runTest P t dir fd w) = w3 \<and>
            trace w3 = trace w1 @ [Exec (run_call (test_run t) (or_empty (test_input t)) tm dir
                                           (feedback_path P fd w1))] \<and>
            status (fst (runTest P t dir fd w)) = Error)"
proof -
  let ?p = "feedback_path P fd w1"
  have 0: "isl (compare_stage P t oc (init_vars P t)) \<longleftrightarrow>
            \<not> truthy_str (oc_error oc) \<and>
            ((test_comparison t = ''regex'' \<and> isl (regexp P (or_empty (test_output t)))) \<or>
             test_comparison t \<notin> {''exact'', ''included'', ''regex''})"
    by (rule compare_stage_throws_iff)
  have tr: "trace w3 = trace w1 @ [Exec (run_call (test_run t) (or_empty (test_input t)) tm dir ?p)]"
    using executeTest_world [of P "test_run t" "or_empty (test_input t)" tm dir ?p
        "w1\<lparr>uuid_count := Suc (uuid_count w1)\<rparr>"] assms(2)
    by simp
  have A: "(\<exists>rest. trace (snd (runTest P t dir fd w)) = trace w3 @ Read_file ?p # rest) \<and>
      (files (os w3) ?p = None \<longrightarrow>
         status (fst (runTest P t dir fd w)) = Error \<and>
         err_message (fst (runTest P t dir fd w)) = Some (enoent ?p)) \<and>
      (\<forall>m. files (os w3) ?p = Some (Unreadable m) \<longrightarrow>
         status (fst (runTest P t dir fd w)) = Error \<and>
         err_message (fst (runTest P t dir fd w)) = Some m)"
    if nothrow: "\<not> isl (compare_stage P t oc (init_vars P t))"
  proof -
    obtain l2 where tb: "try_block P t dir fd w = collect_feedback ?p l2 w3"
      using try_block_collect [OF assms nothrow] by blast
    have 1: "\<exists>rest. trace (snd (runTest P t dir fd w)) = trace w3 @ Read_file ?p # rest"
      using trace_collect_feedback [of ?p l2 w3] tb by (simp add: runTest_world)
    have 2: "status (fst (runTest P t dir fd w)) = Error \<and>
        err_message (fst (runTest P t dir fd w)) = Some (enoent ?p)"
      if "files (os w3) ?p = None"
      using that tb
      by (simp add: runTest_def collect_feedback_def readFileSync_def make_result_def
          catch_clause_def catch_message_def)
    have 3: "status (fst (runTest P t dir fd w)) = Error \<and>
        err_message (fst (runTest P t dir fd w)) = Some m"
      if "files (os w3) ?p = Some (Unreadable m)" for m
      using that tb
      by (simp add: runTest_def collect_feedback_def readFileSync_def make_result_def
          catch_clause_def catch_message_def)
    from 1 2 3 show ?thesis by blast
  qed
  have B: "snd (runTest P t dir fd w) = w3 \<and> status (fst (runTest P t dir fd w)) = Error"
    if throws: "isl (compare_stage P t oc (init_vars P t))"
    using try_block_compare_throws [OF assms throws] by blast
  from 0 A B tr show ?thesis by blast
qed

text \<open>
  A run command that prints the expected output and writes no feedback file: the
  comparison leaves the status at \<open>pass\<close>, the read fails, the result has status
  \<open>error\<close>. And a spec with the mode \<open>include\<close>: the comparison throws and the trace
  of the test ends with the run command.
\<close>

theorem feedback_read_failure_overrides_witness:
  "compare_stage demo_platform silent_test \<lparr>oc_output = Some ''hi'', oc_error = None\<rparr>
       (init_vars demo_platform silent_test) = Inr (init_vars demo_platform silent_test) \<and>
   var_status (init_vars demo_platform silent_test) = Pass \<and>
   status (fst (runTest demo_platform silent_test ''/work'' ''/tmp/fb'' demo_world)) = Error \<and>
   err_message (fst (runTest demo_platform silent_test ''/work'' ''/tmp/fb'' demo_world))
     = Some (enoent ''/tmp/fb/grading_feedback_id.md'') \<and>
   trace (snd (runTest demo_platform bad_mode_test ''/work'' ''/tmp/fb'' demo_world))
     = [Exec (run_call ''echo hi; : > $AUTOGRADING_FEEDBACK'' [] 60000 ''/work''
                ''/tmp/fb/grading_feedback_id.md'')] \<and>
   status (fst (runTest demo_platform bad_mode_test ''/work'' ''/tmp/fb'' demo_world)) = Error"
proof -
  let ?p = "''/tmp/fb/grading_feedback_id.md''"
  let ?w3 = "\<lparr>os = \<lparr>now = 1125 :: rat, files = Map.empty, unlink_error = Map.empty\<rparr>,
              uuid_count = 1,
              trace = [Exec (run_call ''echo hi'' [] (60000 :: rat) ''/work'' ?p)]\<rparr>"
  let ?v3 = "\<lparr>os = \<lparr>now = 1125 :: rat, files = [?p \<mapsto> File []], unlink_error = Map.empty\<rparr>,
              uuid_count = 1,
              trace = [Exec (run_call ''echo hi; : > $AUTOGRADING_FEEDBACK'' [] (60000 :: rat)
                               ''/work'' ?p)]\<rparr>"
  have p: "feedback_path demo_platform ''/tmp/fb'' demo_world = ?p"
    by (simp add: feedback_path_def demo_defs)
  have a: "run_setup demo_platform silent_test ''/work'' demo_world = (Inr 60000, demo_world)"
    by (simp add: run_setup_def total_timeout_def silent_test_def demo_defs)
  have b: "executeTest demo_platform (test_run silent_test) (or_empty (test_input silent_test))
             60000 ''/work'' (feedback_path demo_platform ''/tmp/fb'' demo_world)
             (demo_world\<lparr>uuid_count := Suc (uuid_count demo_world)\<rparr>)
           = (Inr \<lparr>oc_output = Some ''hi'', oc_error = None\<rparr>, ?w3)"
    by (simp add: p) (simp add: executeTest_def run_call_def or_empty_def
        silent_test_def demo_defs)
  have c: "compare_stage demo_platform silent_test \<lparr>oc_output = Some ''hi'', oc_error = None\<rparr>
       (init_vars demo_platform silent_test) = Inr (init_vars demo_platform silent_test)"
    by (simp add: compare_stage_def compareOutput_def truthy_str_def or_empty_def
        silent_test_def demo_defs)
  then have d: "\<not> isl (compare_stage demo_platform silent_test
       \<lparr>oc_output = Some ''hi'', oc_error = None\<rparr> (init_vars demo_platform silent_test))"
    by simp
  have e: "files (os ?w3) (feedback_path demo_platform ''/tmp/fb'' demo_world) = None" by simp
  have f: "var_status (init_vars demo_platform silent_test) = Pass" by (simp add: init_vars_def)
  from feedback_read_failure_overrides [OF a b] d e
  have g: "status (fst (runTest demo_platform silent_test ''/work'' ''/tmp/fb'' demo_world)) = Error \<and>
      err_message (fst (runTest demo_platform silent_test ''/work'' ''/tmp/fb'' demo_world))
        = Some (enoent (feedback_path demo_platform ''/tmp/fb'' demo_world))"
    by blast
  have a': "run_setup demo_platform bad_mode_test ''/work'' demo_world = (Inr 60000, demo_world)"
    by (simp add: run_setup_def total_timeout_def bad_mode_test_def demo_defs)
  have b': "executeTest demo_platform (test_run bad_mode_test)
             (or_empty (test_input bad_mode_test))
             60000 ''/work'' (feedback_path demo_platform ''/tmp/fb'' demo_world)
             (demo_world\<lparr>uuid_count := Suc (uuid_count demo_world)\<rparr>)
           = (Inr \<lparr>oc_output = Some ''hi'', oc_error = None\<rparr>, ?v3)"
    by (simp add: p) (simp add: executeTest_def run_call_def or_empty_def
        bad_mode_test_def demo_defs)
  have d': "isl (compare_stage demo_platform bad_mode_test
       \<lparr>oc_output = Some ''hi'', oc_error = None\<rparr> (init_vars demo_platform bad_mode_test))"
    by (simp add: compare_stage_def compareOutput_def truthy_str_def or_empty_def
        bad_mode_test_def demo_defs)
  from feedback_read_failure_overrides [OF a' b'] d'
  have h: "snd (runTest demo_platform bad_mode_test ''/work'' ''/tmp/fb'' demo_world) = ?v3 \<and>
      status (fst (runTest demo_platform bad_mode_test ''/work'' ''/tmp/fb'' demo_world)) = Error"
    by blast
  from c f g h p show ?thesis by simp
qed

text \<open>
  As the specification words it, the property fails: with an expected output that
  does not compile as a regular expression, the run command is executed,
  \<open>compareOutput\<close> throws, and the feedback file is not read.
\<close>

theorem feedback_read_skipped_counterexample:
  "test_comparison bad_regex_test = ''regex'' \<and>
   trace (snd (runTest demo_platform bad_regex_test ''/work'' ''/tmp/fb'' demo_world))
     = [Exec (run_call ''echo hi; : > $AUTOGRADING_FEEDBACK'' [] 60000 ''/work''
                ''/tmp/fb/grading_feedback_id.md'')] \<and>
   status (fst (runTest demo_platform bad_regex_test ''/work'' ''/tmp/fb'' demo_world)) = Error \<and>
   err_message (fst (runTest demo_platform bad_regex_test ''/work'' ''/tmp/fb'' demo_world))
     = Some ''Invalid regular expression: /(/: Unterminated group''"
  by (simp add: runner_defs bad_regex_test_def demo_defs Let_def)

subsection \<open>C10: an empty feedback file\<close>




subsection \<open>C1: the score of a test\<close>

text \<open>What holds on every path: no score without (non-zero) points, the points on
  \<open>pass\<close>, zero on \<open>fail\<close>.\<close>

lemma runTest_score_by_status:
  "(\<not> truthy_num P (test_points t) \<longrightarrow> score (fst (runTest P t dir fd w)) = None) \<and>
   (status (fst (runTest P t dir fd w)) = Pass \<longrightarrow>
      score (fst (runTest P t dir fd w)) = points_or_null P t) \<and>
   (status (fst (runTest P t dir fd w)) = Fail \<longrightarrow>
      score (fst (runTest P t dir fd w)) = zero_or_null P t)"
  by (auto simp: runTest_def try_block_def Let_def make_result_def catch_clause_def
      init_vars_def points_or_null_def zero_or_null_def compare_stage_def collect_feedback_def
      split: prod.splits sum.splits option.splits if_splits)

text \<open>The branch for a failed run command sets the score to zero before the feedback
  file is read; a test that passed the comparison and whose feedback file is missing
  ends with status \<open>error\<close> and its points.\<close>

lemma run_failure_resets_score:
  "status (fst (runTest demo_platform (demo_test\<lparr>test_run := ''exit 1''\<rparr>)
                  ''/work'' ''/tmp/fb'' demo_world)) = Error \<and>
   score (fst (runTest demo_platform (demo_test\<lparr>test_run := ''exit 1''\<rparr>)
                 ''/work'' ''/tmp/fb'' demo_world)) = Some 0 \<and>
   status (fst (runTest demo_platform silent_test ''/work'' ''/tmp/fb'' demo_world)) = Error \<and>
   score (fst (runTest demo_platform silent_test ''/work'' ''/tmp/fb'' demo_world)) = Some 10"
  by (simp add: runner_defs silent_test_def demo_defs Let_def)

text \<open>
  C1 says that a test with points \<open>P\<close> declared has score \<open>P\<close> on status \<open>pass\<close> and
  score \<open>0\<close> on status \<open>fail\<close> or \<open>error\<close>, a failing setup included. The code on a test
  with 10 points whose setup command exits with status 1: the \<open>catch\<close> clause sets
  the status and the message and leaves the score as it was initialised, so the
  result has status \<open>error\<close> and score 10, and \<open>runAll\<close> counts the 10 points as
  earned while it reports the suite as \<open>error\<close>.
\<close>

theorem errored_test_keeps_points:
  "test_points (demo_test\<lparr>test_setup := ''exit 1''\<rparr>) = Some 10 \<and>
   status (fst (runTest demo_platform (demo_test\<lparr>test_setup := ''exit 1''\<rparr>)
                  ''/work'' ''/tmp/fb'' demo_world)) = Error \<and>
   score (fst (runTest demo_platform (demo_test\<lparr>test_setup := ''exit 1''\<rparr>)
                 ''/work'' ''/tmp/fb'' demo_world)) = Some 10 \<and>
   points_output (fst (runAll demo_platform [demo_test\<lparr>test_setup := ''exit 1''\<rparr>]
                         ''/work'' demo_world)) = Some (10, 10) \<and>
   suite_status (result_output (fst (runAll demo_platform [demo_test\<lparr>test_setup := ''exit 1''\<rparr>]
                         ''/work'' demo_world))) = Error"
  by (simp add: loop_defs runner_defs demo_defs Let_def)

subsection \<open>The loop of runAll\<close>

lemma name_runTest: "name (fst (runTest P t dir fd w)) = test_name t"
  by (simp add: runTest_def make_result_def split: prod.splits)

lemma test_code_runTest:
  "test_code (fst (runTest P t dir fd w)) = test_run t @ '' <stdin>'' @ or_empty (test_input t)"
  by (simp add: runTest_def make_result_def split: prod.splits)

lemma loop_inv_init: "loop_inv P [] init_loop"
  by (simp add: loop_inv_def init_loop_def)

lemma loop_inv_step:
  assumes "loop_inv P ts s" and "name r = test_name t"
    and "test_code r = test_run t @ '' <stdin>'' @ or_empty (test_input t)"
  shows "loop_inv P (ts @ [t]) (after_test P t r (before_test P t s))"
  using assms
  by (cases "truthy_num P (test_points t)")
     (auto simp: loop_inv_def after_test_def before_test_def Let_def)

lemma run_loop_inv:
  "loop_inv P ts0 s \<Longrightarrow> loop_inv P (ts0 @ ts) (fst (run_loop P dir fd ts s w))"
proof (induction ts arbitrary: ts0 s w)
  case Nil
  then show ?case by simp
next
  case (Cons t ts)
  obtain r w' where rt: "runTest P t dir fd w = (r, w')" by (cases "runTest P t dir fd w")
  then have "name r = test_name t"
    and "test_code r = test_run t @ '' <stdin>'' @ or_empty (test_input t)"
    using name_runTest [of P t dir fd w] test_code_runTest [of P t dir fd w] by simp_all
  with Cons.prems have "loop_inv P (ts0 @ [t]) (after_test P t r (before_test P t s))"
    by (rule loop_inv_step)
  from Cons.IH [OF this, of w'] show ?case using rt by simp
qed

lemma run_loop_error_stays:
  "loop_status s = Error \<Longrightarrow> loop_status (fst (run_loop P dir fd ts s w)) = Error"
proof (induction ts arbitrary: s w)
  case Nil
  then show ?case by simp
next
  case (Cons t ts)
  obtain r w' where rt: "runTest P t dir fd w = (r, w')" by (cases "runTest P t dir fd w")
  have "loop_status (after_test P t r (before_test P t s)) = Error"
    using Cons.prems by (simp add: after_test_def before_test_def Let_def)
  from Cons.IH [OF this, of w'] show ?case using rt by simp
qed

lemma runAll_outputs:
  "fst (runAll P ts dir w) =
     (let s = fst (run_loop P dir (fst (createFeedbackDir P w)) ts init_loop
                     (snd (createFeedbackDir P w)))
      in \<lparr>set_failed = failed s,
          points_output =
            (if hasPoints s then Some (accumulatedPoints s, availablePoints s) else None),
          check_run_output =
            (if hasPoints s then Some (accumulatedPoints s, availablePoints s) else None),
          result_output =
            \<lparr>version = 0, suite_status = loop_status s,
             max_score = availablePoints s, tests = testResults s\<rparr>\<rparr>)"
  by (simp add: runAll_def setCheckRunOutput_def Let_def split: prod.splits)

lemma runAll_inv:
  "loop_inv P ts (fst (run_loop P dir (fst (createFeedbackDir P w)) ts init_loop
                     (snd (createFeedbackDir P w))))"
  using run_loop_inv [OF loop_inv_init] by simp

text \<open>Where adding zero changes nothing and no spec has \<open>NaN\<close> points, the sum over the
  specs with truthy points is the sum over the specs that declare points.\<close>

lemma foldl_declared_points:
  assumes "\<forall>x. num_add P x 0 = x"
    and "\<forall>t \<in> set ts. \<forall>p. test_points t = Some p \<longrightarrow> \<not> num_nan P p"
  shows "foldl (num_add P) z
           (map (\<lambda>t. the (test_points t)) (filter (\<lambda>t. truthy_num P (test_points t)) ts))
       = foldl (num_add P) z
           (map (\<lambda>t. the (test_points t)) (filter (\<lambda>t. test_points t \<noteq> None) ts))"
  using assms
proof (induction ts arbitrary: z)
  case Nil
  then show ?case by simp
next
  case (Cons t ts)
  then show ?case
    by (cases "test_points t") (auto simp: truthy_num_def)
qed

lemma demo_suite_run:
  "fst (runAll demo_platform demo_suite ''/work'' demo_world) =
    \<lparr>set_failed = [''Failed to run test '' @ [CHR 0x27] @ ''second'' @ [CHR 0x27]],
     points_output = Some (10, 15), check_run_output = Some (10, 15),
     result_output =
       \<lparr>version = 0, suite_status = Error, max_score = 15,
        tests =
          [\<lparr>name = ''hello'', status = Pass, err_message = None, content = None,
            test_code = ''echo hi; : > $AUTOGRADING_FEEDBACK <stdin>'', filename = [],
            line_no = 0, execution_time = Seconds (1 / 8), score = Some 10\<rparr>,
           \<lparr>name = ''second'', status = Fail,
            err_message = Some ''Output does not match expected. Got: hi'', content = None,
            test_code = ''echo hi; : > $AUTOGRADING_FEEDBACK <stdin>'', filename = [],
            line_no = 0, execution_time = Seconds (1 / 8), score = Some 0\<rparr>,
           \<lparr>name = ''third'', status = Pass, err_message = None, content = None,
            test_code = ''echo hi; : > $AUTOGRADING_FEEDBACK <stdin>'', filename = [],
            line_no = 0, execution_time = Seconds (1 / 8), score = None\<rparr>]\<rparr>\<rparr>"
  by (simp add: demo_suite_def loop_defs runner_defs demo_defs Let_def)

subsection \<open>C4: the status of the suite\<close>

text \<open>
  C4. The status of the report is \<open>pass\<close> iff every result in it has status \<open>pass\<close>;
  if some result has another status (\<open>fail\<close> or \<open>error\<close>) it is \<open>error\<close>; it is never
  \<open>fail\<close>; and from a point of the loop where the status is \<open>error\<close>, it is \<open>error\<close>
  at the end, whatever specs remain.
\<close>

theorem suite_status_reduction:
  "(suite_status (result_output (fst (runAll P ts dir w))) = Pass
      \<longleftrightarrow> (\<forall>r \<in> set (tests (result_output (fst (runAll P ts dir w)))). status r = Pass)) \<and>
   ((\<exists>r \<in> set (tests (result_output (fst (runAll P ts dir w)))). status r \<noteq> Pass)
      \<longrightarrow> suite_status (result_output (fst (runAll P ts dir w))) = Error) \<and>
   suite_status (result_output (fst (runAll P ts dir w))) \<noteq> Fail \<and>
   (\<forall>s w0 fd. loop_status s = Error
      \<longrightarrow> loop_status (fst (run_loop P dir fd ts s w0)) = Error)"
proof -
  let ?s = "fst (run_loop P dir (fst (createFeedbackDir P w)) ts init_loop
                     (snd (createFeedbackDir P w)))"
  have inv: "loop_inv P ts ?s" by (rule runAll_inv)
  have a: "(loop_status ?s = Pass) = (\<forall>r \<in> set (testResults ?s). status r = Pass)"
    and b: "loop_status ?s \<noteq> Fail"
    using inv by (simp_all add: loop_inv_def)
  have c: "loop_status ?s = Error" if "\<exists>r \<in> set (testResults ?s). status r \<noteq> Pass"
    using a b that by (cases "loop_status ?s") auto
  have d: "\<forall>s w0 fd. loop_status s = Error
      \<longrightarrow> loop_status (fst (run_loop P dir fd ts s w0)) = Error"
    by (simp add: run_loop_error_stays)
  show ?thesis
    using a b c d by (simp add: runAll_outputs Let_def)
qed

theorem suite_status_reduction_witness:
  "map status (tests (result_output (fst (runAll demo_platform demo_suite ''/work'' demo_world))))
     = [Pass, Fail, Pass] \<and>
   suite_status (result_output (fst (runAll demo_platform demo_suite ''/work'' demo_world))) = Error \<and>
   suite_status (result_output (fst (runAll demo_platform [demo_test] ''/work'' demo_world))) = Pass"
proof -
  have a: "map status (tests (result_output (fst (runAll demo_platform demo_suite ''/work'' demo_world))))
     = [Pass, Fail, Pass]"
    by (simp add: demo_suite_run)
  then have "\<exists>r \<in> set (tests (result_output (fst (runAll demo_platform demo_suite ''/work'' demo_world)))).
      status r \<noteq> Pass"
    by (simp add: demo_suite_run)
  with suite_status_reduction [of demo_platform demo_suite "''/work''" demo_world]
  have b: "suite_status (result_output (fst (runAll demo_platform demo_suite ''/work'' demo_world))) = Error"
    by blast
  have "\<forall>r \<in> set (tests (result_output (fst (runAll demo_platform [demo_test] ''/work'' demo_world)))).
      status r = Pass"
    by (simp add: loop_defs runner_defs demo_defs Let_def)
  with suite_status_reduction [of demo_platform "[demo_test]" "''/work''" demo_world]
  have c: "suite_status (result_output (fst (runAll demo_platform [demo_test] ''/work'' demo_world))) = Pass"
    by blast
  from a b c show ?thesis by blast
qed

subsection \<open>C8: the totals and the order of the results\<close>

text \<open>
  C8. \<open>max_score\<close> is the sum of the points over the specs with points, as the loop
  computes it: from zero, in the order of the specs, with the addition of the
  platform (for doubles, the rounded addition), a spec with points zero being
  passed over. Where adding zero changes nothing and no spec has \<open>NaN\<close> as points,
  as is the case for doubles read from a file, that is the sum over the specs that
  declare points. The report has one result for each spec, in the order of the
  specs (the names and the rendered commands agree position by position). The
  points earned are summed in the same way over the specs with points only, and a
  spec with no points leaves both totals as they are.
\<close>

theorem suite_totals_and_order:
  "max_score (result_output (fst (runAll P ts dir w)))
     = foldl (num_add P) 0
         (map (\<lambda>t. the (test_points t)) (filter (\<lambda>t. truthy_num P (test_points t)) ts)) \<and>
   ((\<forall>x. num_add P x 0 = x) \<and> (\<forall>t \<in> set ts. \<forall>p. test_points t = Some p \<longrightarrow> \<not> num_nan P p)
      \<longrightarrow> max_score (result_output (fst (runAll P ts dir w)))
            = foldl (num_add P) 0
                (map (\<lambda>t. the (test_points t)) (filter (\<lambda>t. test_points t \<noteq> None) ts))) \<and>
   length (tests (result_output (fst (runAll P ts dir w)))) = length ts \<and>
   map name (tests (result_output (fst (runAll P ts dir w)))) = map test_name ts \<and>
   map test_code (tests (result_output (fst (runAll P ts dir w))))
     = map (\<lambda>t. test_run t @ '' <stdin>'' @ or_empty (test_input t)) ts \<and>
   points_output (fst (runAll P ts dir w))
     = (if \<exists>t \<in> set ts. truthy_num P (test_points t)
        then Some (foldl (num_add P) 0
                     (map (\<lambda>(t, r). score_or_zero P r)
                        (filter (\<lambda>(t, r). truthy_num P (test_points t))
                           (zip ts (tests (result_output (fst (runAll P ts dir w))))))),
                   max_score (result_output (fst (runAll P ts dir w))))
        else None) \<and>
   (\<forall>t r s. test_points t = None \<longrightarrow>
      availablePoints (after_test P t r (before_test P t s)) = availablePoints s \<and>
      accumulatedPoints (after_test P t r (before_test P t s)) = accumulatedPoints s)"
proof -
  let ?s = "fst (run_loop P dir (fst (createFeedbackDir P w)) ts init_loop
                     (snd (createFeedbackDir P w)))"
  have inv: "loop_inv P ts ?s" by (rule runAll_inv)
  have step: "\<forall>t r s. test_points t = None \<longrightarrow>
      availablePoints (after_test P t r (before_test P t s)) = availablePoints s \<and>
      accumulatedPoints (after_test P t r (before_test P t s)) = accumulatedPoints s"
    by (simp add: after_test_def before_test_def truthy_num_def Let_def)
  have decl: "(\<forall>x. num_add P x 0 = x) \<and>
      (\<forall>t \<in> set ts. \<forall>p. test_points t = Some p \<longrightarrow> \<not> num_nan P p)
      \<longrightarrow> foldl (num_add P) 0
            (map (\<lambda>t. the (test_points t)) (filter (\<lambda>t. truthy_num P (test_points t)) ts))
          = foldl (num_add P) 0
              (map (\<lambda>t. the (test_points t)) (filter (\<lambda>t. test_points t \<noteq> None) ts))"
    using foldl_declared_points [of P ts 0] by blast
  from inv step decl show ?thesis
    by (simp add: runAll_outputs Let_def loop_inv_def)
qed

theorem suite_totals_and_order_witness:
  "(\<forall>x. num_add demo_platform x 0 = x) \<and>
   test_points (demo_suite ! 2) = None \<and>
   max_score (result_output (fst (runAll demo_platform demo_suite ''/work'' demo_world))) = 15 \<and>
   map name (tests (result_output (fst (runAll demo_platform demo_suite ''/work'' demo_world))))
     = [''hello'', ''second'', ''third''] \<and>
   points_output (fst (runAll demo_platform demo_suite ''/work'' demo_world)) = Some (10, 15)"
proof -
  have u: "\<forall>x. num_add demo_platform x 0 = x" by (simp add: demo_platform_def)
  have n: "\<forall>t \<in> set demo_suite. \<forall>p. test_points t = Some p \<longrightarrow> \<not> num_nan demo_platform p"
    by (simp add: demo_platform_def)
  from suite_totals_and_order [of demo_platform demo_suite "''/work''" demo_world] u n
  have "max_score (result_output (fst (runAll demo_platform demo_suite ''/work'' demo_world)))
     = foldl (num_add demo_platform) 0
         (map (\<lambda>t. the (test_points t)) (filter (\<lambda>t. test_points t \<noteq> None) demo_suite))"
    and "map name (tests (result_output (fst (runAll demo_platform demo_suite ''/work'' demo_world))))
     = map test_name demo_suite"
    by blast+
  then show ?thesis using u
    by (simp add: demo_suite_run) (simp add: demo_suite_def demo_test_def demo_platform_def)
qed

subsection \<open>C9: points declared as zero\<close>

lemma zero_points_leaves:
  assumes "test_points t = Some 0"
  shows "points_or_null P (t\<lparr>test_points := None\<rparr>) = points_or_null P t"
    and "zero_or_null P (t\<lparr>test_points := None\<rparr>) = zero_or_null P t"
    and "total_timeout P (t\<lparr>test_points := None\<rparr>) = total_timeout P t"
    and "setup_call P (t\<lparr>test_points := None\<rparr>) dir = setup_call P t dir"
    and "catch_message (t\<lparr>test_points := None\<rparr>) e = catch_message t e"
    and "truthy_num P (test_points (t\<lparr>test_points := None\<rparr>)) = truthy_num P (test_points t)"
  using assms
  by (simp_all add: points_or_null_def zero_or_null_def truthy_num_def total_timeout_def
      setup_call_def catch_message_def split: js_thrown.splits)

lemma zero_points_stages:
  assumes "test_points t = Some 0"
  shows "init_vars P (t\<lparr>test_points := None\<rparr>) = init_vars P t"
    and "compare_stage P (t\<lparr>test_points := None\<rparr>) oc l = compare_stage P t oc l"
    and "run_setup P (t\<lparr>test_points := None\<rparr>) dir w = run_setup P t dir w"
    and "make_result (t\<lparr>test_points := None\<rparr>) l = make_result t l"
    and "catch_clause (t\<lparr>test_points := None\<rparr>) thrown l = catch_clause t thrown l"
    and "before_test P (t\<lparr>test_points := None\<rparr>) s = before_test P t s"
    and "after_test P (t\<lparr>test_points := None\<rparr>) r s = after_test P t r s"
proof -
  note lv = zero_points_leaves [OF assms]
  show "init_vars P (t\<lparr>test_points := None\<rparr>) = init_vars P t"
    by (simp add: init_vars_def lv)
  show "compare_stage P (t\<lparr>test_points := None\<rparr>) oc l = compare_stage P t oc l"
    by (simp add: compare_stage_def lv split: sum.splits)
  show "run_setup P (t\<lparr>test_points := None\<rparr>) dir w = run_setup P t dir w"
    by (simp add: run_setup_def lv Let_def split: prod.splits exec_result.splits)
  show "make_result (t\<lparr>test_points := None\<rparr>) l = make_result t l"
    by (simp add: make_result_def)
  show "catch_clause (t\<lparr>test_points := None\<rparr>) thrown l = catch_clause t thrown l"
    by (simp add: catch_clause_def lv split: option.splits)
  show "before_test P (t\<lparr>test_points := None\<rparr>) s = before_test P t s"
    using assms by (simp add: before_test_def truthy_num_def)
  show "after_test P (t\<lparr>test_points := None\<rparr>) r s = after_test P t r s"
    using assms by (simp add: after_test_def truthy_num_def Let_def)
qed

lemma try_block_zero_points:
  assumes "test_points t = Some 0"
  shows "try_block P (t\<lparr>test_points := None\<rparr>) dir fd w = try_block P t dir fd w"
  unfolding try_block_def
  by (simp add: zero_points_stages [OF assms] Let_def cong: prod.case_cong sum.case_cong)

lemma runTest_zero_points:
  assumes "test_points t = Some 0"
  shows "runTest P (t\<lparr>test_points := None\<rparr>) dir fd w = runTest P t dir fd w"
  unfolding runTest_def
  by (simp add: zero_points_stages [OF assms] try_block_zero_points [OF assms]
      cong: prod.case_cong)

lemma run_loop_zero_points:
  assumes "test_points t = Some 0"
  shows "run_loop P dir fd (pre @ t\<lparr>test_points := None\<rparr> # post) s w
       = run_loop P dir fd (pre @ t # post) s w"
proof (induction pre arbitrary: s w)
  case Nil
  show ?case
    by (simp add: runTest_zero_points [OF assms] zero_points_stages [OF assms]
        cong: prod.case_cong)
next
  case (Cons a pre)
  then show ?case by (simp cong: prod.case_cong)
qed

text \<open>
  C9. A spec with points 0 is treated as the same spec with no points: the score of
  its result is null, \<open>runTest\<close> returns the same result and leaves the same world,
  \<open>runAll\<close> returns the same outputs (so the spec adds nothing to the points
  available or earned), and when no other spec has points the points summary is
  not emitted.
\<close>

theorem zero_points_as_no_points:
  assumes "test_points t = Some 0"
  shows "score (fst (runTest P t dir fd w)) = None \<and>
         runTest P t dir fd w = runTest P (t\<lparr>test_points := None\<rparr>) dir fd w \<and>
         runAll P (pre @ t # post) dir w = runAll P (pre @ t\<lparr>test_points := None\<rparr> # post) dir w \<and>
         availablePoints (after_test P t r (before_test P t s)) = availablePoints s \<and>
         accumulatedPoints (after_test P t r (before_test P t s)) = accumulatedPoints s \<and>
         ((\<forall>u \<in> set (pre @ post). \<not> truthy_num P (test_points u)) \<longrightarrow>
            points_output (fst (runAll P (pre @ t # post) dir w)) = None \<and>
            check_run_output (fst (runAll P (pre @ t # post) dir w)) = None)"
proof -
  have totals: "availablePoints (after_test P t r (before_test P t s)) = availablePoints s \<and>
      accumulatedPoints (after_test P t r (before_test P t s)) = accumulatedPoints s"
    using assms by (simp add: after_test_def before_test_def truthy_num_def Let_def)
  have "\<not> truthy_num P (test_points t)" using assms by (simp add: truthy_num_def)
  then have a: "score (fst (runTest P t dir fd w)) = None"
    using runTest_score_by_status [of P t dir fd w] by blast
  have b: "runTest P t dir fd w = runTest P (t\<lparr>test_points := None\<rparr>) dir fd w"
    using runTest_zero_points [OF assms] by simp
  have c: "runAll P (pre @ t # post) dir w = runAll P (pre @ t\<lparr>test_points := None\<rparr> # post) dir w"
    using run_loop_zero_points [OF assms] by (simp add: runAll_def split: prod.splits)
  let ?s = "fst (run_loop P dir (fst (createFeedbackDir P w)) (pre @ t # post) init_loop
                     (snd (createFeedbackDir P w)))"
  have "loop_inv P (pre @ t # post) ?s" by (rule runAll_inv)
  then have "hasPoints ?s = (\<exists>u \<in> set (pre @ t # post). truthy_num P (test_points u))"
    by (simp add: loop_inv_def)
  then have d: "\<not> hasPoints ?s" if "\<forall>u \<in> set (pre @ post). \<not> truthy_num P (test_points u)"
    using that assms by (auto simp: truthy_num_def)
  have e: "(\<forall>u \<in> set (pre @ post). \<not> truthy_num P (test_points u)) \<longrightarrow>
            points_output (fst (runAll P (pre @ t # post) dir w)) = None \<and>
            check_run_output (fst (runAll P (pre @ t # post) dir w)) = None"
    using d by (simp add: runAll_outputs Let_def)
  show ?thesis using a b c e totals by blast
qed

theorem zero_points_as_no_points_witness:
  "test_points (demo_test\<lparr>test_points := Some 0\<rparr>) = Some 0 \<and>
   status (fst (runTest demo_platform (demo_test\<lparr>test_points := Some 0\<rparr>)
                  ''/work'' ''/tmp/fb'' demo_world)) = Pass \<and>
   score (fst (runTest demo_platform (demo_test\<lparr>test_points := Some 0\<rparr>)
                 ''/work'' ''/tmp/fb'' demo_world)) = None \<and>
   points_output (fst (runAll demo_platform [demo_test\<lparr>test_points := Some 0\<rparr>]
                         ''/work'' demo_world)) = None \<and>
   max_score (result_output (fst (runAll demo_platform [demo_test\<lparr>test_points := Some 0\<rparr>]
                         ''/work'' demo_world))) = 0"
proof -
  let ?t = "demo_test\<lparr>test_points := Some 0\<rparr>"
  have a: "test_points ?t = Some 0" by simp
  have b: "\<forall>u \<in> set ([] @ []). \<not> truthy_num demo_platform (test_points (u :: rat Test))" by simp
  from zero_points_as_no_points [OF a, of demo_platform "''/work''" "''/tmp/fb''" demo_world
      "[]" "[]"] b
  have "score (fst (runTest demo_platform ?t ''/work'' ''/tmp/fb'' demo_world)) = None \<and>
        points_output (fst (runAll demo_platform ([] @ ?t # []) ''/work'' demo_world)) = None"
    by blast
  moreover have "status (fst (runTest demo_platform ?t ''/work'' ''/tmp/fb'' demo_world)) = Pass"
    by (simp add: runner_defs demo_defs Let_def)
  moreover have "max_score (result_output (fst (runAll demo_platform [?t] ''/work'' demo_world))) = 0"
    by (simp add: loop_defs runner_defs demo_defs Let_def)
  ultimately show ?thesis using a by simp
qed

end
